theory Spec2Isabelle
  imports Complex_Main "HOL-Library.Word"
begin

section \<open>The ORB-SLAM2 ROS interface (src/library/interface.cpp)\<close>

text \<open>
  The file under verification is glue code: it checks the shape of a pose matrix, moves
  its entries through library conversions, assembles ROS messages and hands them to
  publishers. The libraries it calls (OpenCV, Eigen, minkindr, tf, ros::Time) are not part
  of the repository; every call into them is a parameter of the model, collected in the
  records \<open>conv_lib\<close> and \<open>ros_lib\<close>, and the theorems hold for every choice of
  these parameters. Scalars stay abstract: \<open>'c\<close> is the element type of the
  \<open>cv::Mat\<close>, \<open>'f\<close> is \<open>float\<close>, \<open>'d\<close> is \<open>double\<close>.
  Member names of the class end in an underscore in the source (\<open>frame_id_\<close>); here
  they end in \<open>_m\<close>.
\<close>

subsection \<open>Data\<close>

text \<open>\<open>cv::Mat\<close>: the header fields \<open>rows\<close>, \<open>cols\<close> (C++ \<open>int\<close>) and the
  elements, stored by rows.\<close>

record 'c cv_Mat =
  rows :: int
  cols :: int
  elems :: "'c list list"

definition at_cv :: "'c cv_Mat \<Rightarrow> nat \<Rightarrow> nat \<Rightarrow> 'c" where
  "at_cv m i j = elems m ! i ! j"

text \<open>An Eigen matrix is the list of its rows; a vector is the list of its entries.\<close>

type_synonym 'a matrix = "'a list list"

text \<open>\<open>M.block<p, q>(i, j)\<close>: the \<open>p\<close> by \<open>q\<close> block whose top-left corner is
  at row \<open>i\<close>, column \<open>j\<close>.\<close>

definition block :: "nat \<Rightarrow> nat \<Rightarrow> nat \<Rightarrow> nat \<Rightarrow> 'a matrix \<Rightarrow> 'a matrix" where
  "block p q i j M = map (\<lambda>r. map (\<lambda>c. M ! (i + r) ! (j + c)) [0..<q]) [0..<p]"

text \<open>\<open>Eigen::Vector3d v(B)\<close> for a one-column block \<open>B\<close>.\<close>

definition Vector3d :: "'a matrix \<Rightarrow> 'a list" where
  "Vector3d B = map (\<lambda>r. r ! 0) B"

text \<open>minkindr's \<open>Transformation\<close>: a rotation quaternion and a position.\<close>

record ('q, 'd) Transformation =
  getRotation :: 'q
  getPosition :: "'d list"

text \<open>The library calls of \<open>convertOrbSlamPoseToKindr\<close>:
  the element conversion of \<open>cv::cv2eigen\<close> into a float matrix, Eigen's
  \<open>cast<double>()\<close>, \<open>Eigen::AngleAxisd(R)\<close>, \<open>aa.toRotationMatrix()\<close> and
  minkindr's \<open>Quaternion(R)\<close>.\<close>

record ('c, 'f, 'd, 'aa, 'q) conv_lib =
  cv2eigen_elem :: "'c \<Rightarrow> 'f"
  cast_double :: "'f \<Rightarrow> 'd"
  AngleAxisd :: "'d matrix \<Rightarrow> 'aa"
  toRotationMatrix :: "'aa \<Rightarrow> 'd matrix"
  Quaternion :: "'d matrix \<Rightarrow> 'q"

text \<open>The fatal \<open>CHECK\<close> failures of the file.\<close>

datatype error = NullPointer | InvalidInputShape | ConfigurationError

subsection \<open>convertOrbSlamPoseToKindr\<close>

text \<open>\<open>cv::cv2eigen(T_cv, T_eigen_f)\<close> with a 4 by 4 destination.\<close>

definition cv2eigen :: "('c \<Rightarrow> 'f) \<Rightarrow> 'c cv_Mat \<Rightarrow> 'f matrix" where
  "cv2eigen conv src = map (\<lambda>i. map (\<lambda>j. conv (at_cv src i j)) [0..<4]) [0..<4]"

text \<open>The out-parameter \<open>T_kindr\<close> is a pointer: \<open>None\<close> is the null pointer,
  \<open>Some T\<close> points to an object holding \<open>T\<close>. The result is the value written
  through the pointer, or the \<open>CHECK\<close> that fired.\<close>

definition convertOrbSlamPoseToKindr ::
  "('c, 'f, 'd, 'aa, 'q) conv_lib \<Rightarrow> 'c cv_Mat \<Rightarrow> ('q, 'd) Transformation option
     \<Rightarrow> error + ('q, 'd) Transformation" where
  "convertOrbSlamPoseToKindr E T_cv T_kindr =
     (if T_kindr = None then Inl NullPointer
      else if cols T_cv \<noteq> 4 then Inl InvalidInputShape
      else if rows T_cv \<noteq> 4 then Inl InvalidInputShape
      else
        let T_eigen_f = cv2eigen (cv2eigen_elem E) T_cv;
            T_eigen_d = map (map (cast_double E)) T_eigen_f;
            R_unnormalized = block 3 3 0 0 T_eigen_d;
            aa = AngleAxisd E R_unnormalized;
            R = toRotationMatrix E aa;
            q_kindr = Quaternion E R;
            t_kindr = Vector3d (block 3 1 0 3 T_eigen_d)
        in Inr \<lparr>getRotation = q_kindr, getPosition = t_kindr\<rparr>)"

text \<open>Entry \<open>(r, k)\<close> of the input as it reaches the double matrix: through the element
  conversion of \<open>cv2eigen\<close> and the cast to double.\<close>

abbreviation entry_as_double ::
  "('c, 'f, 'd, 'aa, 'q) conv_lib \<Rightarrow> 'c cv_Mat \<Rightarrow> nat \<Rightarrow> nat \<Rightarrow> 'd" where
  "entry_as_double E T_cv r k \<equiv> cast_double E (cv2eigen_elem E (elems T_cv ! r ! k))"

subsection \<open>Messages\<close>

text \<open>\<open>std_msgs::Header\<close>, \<open>geometry_msgs::TransformStamped\<close>,
  \<open>std_msgs::UInt64\<close>, the two arrays of \<open>orb_slam_2_ros::TransformsWithIds\<close>
  that the file fills, and \<open>tf::StampedTransform\<close>. \<open>'t\<close> is \<open>ros::Time\<close>,
  \<open>'tm\<close> is \<open>geometry_msgs::Transform\<close>, \<open>'tf\<close> is \<open>tf::Transform\<close>.\<close>

record 't Header =
  seq :: "32 word"
  stamp :: 't
  frame_id :: string

record ('t, 'tm) TransformStamped =
  header :: "'t Header"
  child_frame_id :: string
  transform :: 'tm

record UInt64 =
  data :: "64 word"

record ('t, 'tm) TransformsWithIds =
  transforms :: "('t, 'tm) TransformStamped list"
  keyframe_ids :: "UInt64 list"

record ('t, 'tf) StampedTransform =
  tf_transform :: 'tf
  tf_stamp :: 't
  tf_frame_id :: string
  tf_child_frame_id :: string

text \<open>\<open>ORB_SLAM2::PoseWithID\<close>, as far as the file reads it (field \<open>id\<close> is
  \<open>id_kf\<close> here).\<close>

record ('c, 'd) PoseWithID =
  pose :: "'c cv_Mat"
  timestamp :: 'd
  id_kf :: "64 word"

text \<open>The library calls of the publishing code: the default constructor
  \<open>Transformation()\<close>, \<open>T.inverse()\<close>, \<open>tf::transformKindrToMsg\<close>,
  \<open>tf::transformKindrToTF\<close> and the constructor \<open>ros::Time(double)\<close>.\<close>

record ('q, 'd, 't, 'tm, 'tf) ros_lib =
  Transformation_default :: "('q, 'd) Transformation"
  inverse_T :: "('q, 'd) Transformation \<Rightarrow> ('q, 'd) Transformation"
  transformKindrToMsg :: "('q, 'd) Transformation \<Rightarrow> 'tm"
  transformKindrToTF :: "('q, 'd) Transformation \<Rightarrow> 'tf"
  ros_Time :: "'d \<Rightarrow> 't"

subsection \<open>The interface object\<close>

text \<open>The members of \<open>OrbSlam2Interface\<close> that the file uses. A publisher is the list
  of the messages it has published, oldest first; the broadcaster likewise.\<close>

record ('q, 'd, 't, 'tm, 'tf) OrbSlam2Interface =
  use_viewer_m :: bool
  verbose_m :: bool
  frame_id_m :: string
  child_frame_id_m :: string
  vocabulary_file_path_m :: string
  settings_file_path_m :: string
  mb_shutdown_flag :: bool
  T_W_C_m :: "('q, 'd) Transformation"
  T_pub_m :: "('t, 'tm) TransformStamped list"
  trajectory_pub_m :: "('t, 'tm) TransformsWithIds list"
  tf_broadcaster_m :: "('t, 'tf) StampedTransform list"

text \<open>The constants \<open>kDefault...\<close> are declared in interface.hpp, which is not among the
  sources: they are parameters.\<close>

record defaults =
  kDefaultUseViewer :: bool
  kDefaultVerbose :: bool
  kDefaultFrameId :: string
  kDefaultChildFrameId :: string

text \<open>The parameters of the private node handle that \<open>getParametersFromRos\<close> reads;
  \<open>None\<close> is a parameter that is not set.\<close>

record ros_params =
  vocabulary_file_path :: "string option"
  settings_file_path :: "string option"
  use_viewer :: "bool option"
  verbose :: "bool option"
  frame_id_param :: "string option"
  child_frame_id_param :: "string option"

text \<open>\<open>nh.getParam(name, var)\<close> writes \<open>var\<close> only when the parameter is set.\<close>

definition getParam :: "'a option \<Rightarrow> 'a \<Rightarrow> 'a" where
  "getParam p var = (case p of None \<Rightarrow> var | Some v \<Rightarrow> v)"

definition getParametersFromRos ::
  "ros_params \<Rightarrow> ('q, 'd, 't, 'tm, 'tf) OrbSlam2Interface
     \<Rightarrow> error + ('q, 'd, 't, 'tm, 'tf) OrbSlam2Interface" where
  "getParametersFromRos P st =
     (case vocabulary_file_path P of
        None \<Rightarrow> Inl ConfigurationError
      | Some voc \<Rightarrow>
         (case settings_file_path P of
            None \<Rightarrow> Inl ConfigurationError
          | Some settings \<Rightarrow>
             Inr (st\<lparr>vocabulary_file_path_m := voc,
                     settings_file_path_m := settings,
                     use_viewer_m := getParam (use_viewer P) (use_viewer_m st),
                     verbose_m := getParam (verbose P) (verbose_m st),
                     frame_id_m := getParam (frame_id_param P) (frame_id_m st),
                     child_frame_id_m :=
                       getParam (child_frame_id_param P) (child_frame_id_m st)\<rparr>)))"

text \<open>The constructor: the initialiser list, \<open>advertiseTopics\<close> (publishers with
  nothing published yet), then \<open>getParametersFromRos\<close>. \<open>T_W_C_\<close> is not in the
  initialiser list, so it is default-constructed.\<close>

definition OrbSlam2Interface_init ::
  "('q, 'd, 't, 'tm, 'tf) ros_lib \<Rightarrow> defaults \<Rightarrow> ros_params
     \<Rightarrow> error + ('q, 'd, 't, 'tm, 'tf) OrbSlam2Interface" where
  "OrbSlam2Interface_init L D P =
     getParametersFromRos P
       \<lparr>use_viewer_m = kDefaultUseViewer D,
        verbose_m = kDefaultVerbose D,
        frame_id_m = kDefaultFrameId D,
        child_frame_id_m = kDefaultChildFrameId D,
        vocabulary_file_path_m = [],
        settings_file_path_m = [],
        mb_shutdown_flag = False,
        T_W_C_m = Transformation_default L,
        T_pub_m = [],
        trajectory_pub_m = [],
        tf_broadcaster_m = []\<rparr>"

definition shutdown ::
  "('q, 'd, 't, 'tm, 'tf) OrbSlam2Interface \<Rightarrow> ('q, 'd, 't, 'tm, 'tf) OrbSlam2Interface" where
  "shutdown st = st\<lparr>mb_shutdown_flag := True\<rparr>"

definition publishCurrentPose ::
  "('q, 'd, 't, 'tm, 'tf) ros_lib \<Rightarrow> ('q, 'd) Transformation \<Rightarrow> 't Header
     \<Rightarrow> ('q, 'd, 't, 'tm, 'tf) OrbSlam2Interface \<Rightarrow> ('q, 'd, 't, 'tm, 'tf) OrbSlam2Interface" where
  "publishCurrentPose L T hdr st =
     (let msg = \<lparr>header = hdr,
                 child_frame_id = child_frame_id_m st,
                 transform = transformKindrToMsg L T\<rparr>
      in st\<lparr>T_pub_m := T_pub_m st @ [msg]\<rparr>)"

text \<open>The timer callback; \<open>now\<close> is what \<open>ros::Time::now()\<close> returns at the tick.\<close>

definition publishCurrentPoseAsTF ::
  "('q, 'd, 't, 'tm, 'tf) ros_lib \<Rightarrow> 't
     \<Rightarrow> ('q, 'd, 't, 'tm, 'tf) OrbSlam2Interface \<Rightarrow> ('q, 'd, 't, 'tm, 'tf) OrbSlam2Interface" where
  "publishCurrentPoseAsTF L now st =
     (let tf_transform = transformKindrToTF L (T_W_C_m st)
      in st\<lparr>tf_broadcaster_m := tf_broadcaster_m st @
               [\<lparr>tf_transform = tf_transform, tf_stamp = now,
                 tf_frame_id = frame_id_m st,
                 tf_child_frame_id = child_frame_id_m st\<rparr>]\<rparr>)"

text \<open>A run of timer ticks, one per element of the list of tick times.\<close>

fun ticks ::
  "('q, 'd, 't, 'tm, 'tf) ros_lib \<Rightarrow> 't list
     \<Rightarrow> ('q, 'd, 't, 'tm, 'tf) OrbSlam2Interface \<Rightarrow> ('q, 'd, 't, 'tm, 'tf) OrbSlam2Interface" where
  "ticks L [] st = st"
| "ticks L (now # nows) st = ticks L nows (publishCurrentPoseAsTF L now st)"

subsection \<open>runPublishUpdatedTrajectory\<close>

text \<open>The body of the \<open>for\<close> loop (lines 59 to 70): the two values pushed for one
  \<open>PoseWithID\<close> (the local \<open>id\<close> is \<open>id'\<close> here). The local \<open>T_C_W\<close> is default-constructed and passed by address.
  \<open>T_W_C_msg\<close> is default-constructed, then its stamp and transform are assigned.\<close>

definition trajectory_entry ::
  "('c, 'f, 'd, 'aa, 'q) conv_lib \<Rightarrow> ('q, 'd, 't, 'tm, 'tf) ros_lib \<Rightarrow> ('c, 'd) PoseWithID
     \<Rightarrow> error + (('t, 'tm) TransformStamped \<times> UInt64)" where
  "trajectory_entry E L pose_with_id =
     (case convertOrbSlamPoseToKindr E (pose pose_with_id) (Some (Transformation_default L)) of
        Inl e \<Rightarrow> Inl e
      | Inr T_C_W \<Rightarrow>
          let T_W_C = inverse_T L T_C_W;
              T_W_C_msg = \<lparr>header = \<lparr>seq = 0,
                                      stamp = ros_Time L (timestamp pose_with_id),
                                      frame_id = []\<rparr>,
                           child_frame_id = [],
                           transform = transformKindrToMsg L T_W_C\<rparr>;
              id' = \<lparr>data = id_kf pose_with_id\<rparr>
          in Inr (T_W_C_msg, id'))"

text \<open>The \<open>for\<close> loop over the fetched trajectory: a failed \<open>CHECK\<close> ends it.\<close>

fun populate ::
  "('c, 'f, 'd, 'aa, 'q) conv_lib \<Rightarrow> ('q, 'd, 't, 'tm, 'tf) ros_lib \<Rightarrow> ('c, 'd) PoseWithID list
     \<Rightarrow> ('t, 'tm) TransformsWithIds \<Rightarrow> error + ('t, 'tm) TransformsWithIds" where
  "populate E L [] transforms_with_ids = Inr transforms_with_ids"
| "populate E L (pose_with_id # rest) transforms_with_ids =
     (case trajectory_entry E L pose_with_id of
        Inl e \<Rightarrow> Inl e
      | Inr (T_W_C_msg, id') \<Rightarrow>
          populate E L rest
            (transforms_with_ids
               \<lparr>transforms := transforms transforms_with_ids @ [T_W_C_msg],
                keyframe_ids := keyframe_ids transforms_with_ids @ [id']\<rparr>))"

text \<open>The polling thread runs beside the threads that call \<open>shutdown\<close>. Its control
  points are the loop head (the test of the flag), the availability query, the fetch with
  the publication, and the sleep; it has left the loop, or the process has aborted on a
  failed \<open>CHECK\<close>.\<close>

datatype pc = LoopHead | AvailCheck | FetchPublish | Sleep | Exited | Aborted

text \<open>What the thread asks of its collaborators.\<close>

datatype call = IsUpdatedTrajectoryAvailable | GetUpdatedTrajectory | Usleep nat

record ('q, 'd, 't, 'tm, 'tf) world =
  ifc :: "('q, 'd, 't, 'tm, 'tf) OrbSlam2Interface"
  pc :: pc
  calls :: "call list"

text \<open>One step of the polling thread. \<open>avail\<close> and \<open>traj\<close> are what the engine answers
  at this moment, should it be asked.\<close>

definition poller_step ::
  "('c, 'f, 'd, 'aa, 'q) conv_lib \<Rightarrow> ('q, 'd, 't, 'tm, 'tf) ros_lib \<Rightarrow> bool
     \<Rightarrow> ('c, 'd) PoseWithID list \<Rightarrow> ('q, 'd, 't, 'tm, 'tf) world \<Rightarrow> ('q, 'd, 't, 'tm, 'tf) world" where
  "poller_step E L avail traj w =
     (case pc w of
        LoopHead \<Rightarrow>
          if mb_shutdown_flag (ifc w) then w\<lparr>pc := Exited\<rparr> else w\<lparr>pc := AvailCheck\<rparr>
      | AvailCheck \<Rightarrow>
          w\<lparr>calls := calls w @ [IsUpdatedTrajectoryAvailable],
            pc := (if avail then FetchPublish else Sleep)\<rparr>
      | FetchPublish \<Rightarrow>
          (case populate E L traj \<lparr>transforms = [], keyframe_ids = []\<rparr> of
             Inl e \<Rightarrow> w\<lparr>calls := calls w @ [GetUpdatedTrajectory], pc := Aborted\<rparr>
           | Inr transforms_with_ids \<Rightarrow>
               w\<lparr>calls := calls w @ [GetUpdatedTrajectory],
                 ifc := (ifc w)\<lparr>trajectory_pub_m :=
                           trajectory_pub_m (ifc w) @ [transforms_with_ids]\<rparr>,
                 pc := Sleep\<rparr>)
      | Sleep \<Rightarrow> w\<lparr>calls := calls w @ [Usleep 5000], pc := LoopHead\<rparr>
      | Exited \<Rightarrow> w
      | Aborted \<Rightarrow> w)"

text \<open>What can happen next: the polling thread takes a step, or some other thread calls
  \<open>shutdown\<close>.\<close>

datatype ('c, 'd) action = PollerStep bool "('c, 'd) PoseWithID list" | ShutdownCall

fun sys_step ::
  "('c, 'f, 'd, 'aa, 'q) conv_lib \<Rightarrow> ('q, 'd, 't, 'tm, 'tf) ros_lib \<Rightarrow> ('c, 'd) action
     \<Rightarrow> ('q, 'd, 't, 'tm, 'tf) world \<Rightarrow> ('q, 'd, 't, 'tm, 'tf) world" where
  "sys_step E L (PollerStep avail traj) w = poller_step E L avail traj w"
| "sys_step E L ShutdownCall w = w\<lparr>ifc := shutdown (ifc w)\<rparr>"

fun run ::
  "('c, 'f, 'd, 'aa, 'q) conv_lib \<Rightarrow> ('q, 'd, 't, 'tm, 'tf) ros_lib \<Rightarrow> ('c, 'd) action list
     \<Rightarrow> ('q, 'd, 't, 'tm, 'tf) world \<Rightarrow> ('q, 'd, 't, 'tm, 'tf) world" where
  "run E L [] w = w"
| "run E L (a # as) w = run E L as (sys_step E L a w)"

fun is_poller_step :: "('c, 'd) action \<Rightarrow> bool" where
  "is_poller_step (PollerStep avail traj) = True"
| "is_poller_step ShutdownCall = False"

text \<open>With the flag set: how many more steps the thread takes before it has left the loop,
  and how many more availability queries, fetches and sleeps it can still make.\<close>

fun steps_left :: "pc \<Rightarrow> nat" where
  "steps_left AvailCheck = 4"
| "steps_left FetchPublish = 3"
| "steps_left Sleep = 2"
| "steps_left LoopHead = 1"
| "steps_left Exited = 0"
| "steps_left Aborted = 0"

fun calls_left :: "call \<Rightarrow> pc \<Rightarrow> nat" where
  "calls_left IsUpdatedTrajectoryAvailable p = (if p = AvailCheck then 1 else 0)"
| "calls_left GetUpdatedTrajectory p = (if p = AvailCheck \<or> p = FetchPublish then 1 else 0)"
| "calls_left (Usleep n) p =
     (if p = AvailCheck \<or> p = FetchPublish \<or> p = Sleep then 1 else 0)"

subsection \<open>An instance for evaluation\<close>

text \<open>The model is evaluated on concrete inputs with this instance of the library
  parameters: every scalar type is \<open>real\<close>, the conversions are value-preserving, a
  rotation is its 3 by 3 matrix (which the repair leaves as it is: the rotation blocks
  below are orthonormal), and the inverse of \<open>(R, t)\<close> is \<open>(R\<^sup>T, - R\<^sup>T t)\<close>.
  Messages carry the Transformation itself.\<close>

type_synonym rot = "real matrix"
type_synonym kindr = "(rot, real) Transformation"

definition E_ex :: "(real, real, real, rot, rot) conv_lib" where
  "E_ex = \<lparr>cv2eigen_elem = (\<lambda>x. x), cast_double = (\<lambda>x. x), AngleAxisd = (\<lambda>R. R),
           toRotationMatrix = (\<lambda>aa. aa), Quaternion = (\<lambda>R. R)\<rparr>"

definition transpose3 :: "rot \<Rightarrow> rot" where
  "transpose3 R = map (\<lambda>j. map (\<lambda>r. r ! j) R) [0..<3]"

definition mat_vec :: "rot \<Rightarrow> real list \<Rightarrow> real list" where
  "mat_vec R v = map (\<lambda>r. sum_list (map2 (*) r v)) R"

definition L_ex :: "(rot, real, real, kindr, kindr) ros_lib" where
  "L_ex = \<lparr>Transformation_default =
             \<lparr>getRotation = [[1, 0, 0], [0, 1, 0], [0, 0, 1]], getPosition = [0, 0, 0]\<rparr>,
           inverse_T = (\<lambda>T. \<lparr>getRotation = transpose3 (getRotation T),
                             getPosition = map uminus (mat_vec (transpose3 (getRotation T))
                                                              (getPosition T))\<rparr>),
           transformKindrToMsg = (\<lambda>T. T),
           transformKindrToTF = (\<lambda>T. T),
           ros_Time = (\<lambda>t. t)\<rparr>"

definition M_ex :: "real cv_Mat" where
  "M_ex = \<lparr>rows = 4, cols = 4,
           elems = [[1, 0, 0, 1], [0, 0, -1, 2], [0, 1, 0, 3], [0, 0, 0, 1]]\<rparr>"

definition M_bad :: "real cv_Mat" where
  "M_bad = \<lparr>rows = 3, cols = 4,
            elems = [[1, 0, 0, 1], [0, 0, -1, 2], [0, 1, 0, 3]]\<rparr>"

definition M_id :: "real cv_Mat" where
  "M_id = \<lparr>rows = 4, cols = 4,
           elems = [[1, 0, 0, 0], [0, 1, 0, 0], [0, 0, 1, 0], [0, 0, 0, 1]]\<rparr>"

definition snap_ex :: "(real, real) PoseWithID list" where
  "snap_ex = [\<lparr>pose = M_id, timestamp = 0.5, id_kf = 5\<rparr>,
              \<lparr>pose = M_ex, timestamp = 1, id_kf = 7\<rparr>,
              \<lparr>pose = M_ex, timestamp = 1.5, id_kf = 9\<rparr>]"

definition msg_ex :: "real \<Rightarrow> kindr \<Rightarrow> (real, kindr) TransformStamped" where
  "msg_ex t T = \<lparr>header = \<lparr>seq = 0, stamp = t, frame_id = []\<rparr>, child_frame_id = [],
                 transform = T\<rparr>"

definition batch_ex :: "(real, kindr) TransformsWithIds" where
  "batch_ex =
     \<lparr>transforms =
        [msg_ex 0.5 \<lparr>getRotation = [[1, 0, 0], [0, 1, 0], [0, 0, 1]], getPosition = [0, 0, 0]\<rparr>,
         msg_ex 1 \<lparr>getRotation = [[1, 0, 0], [0, 0, 1], [0, -1, 0]], getPosition = [-1, -3, 2]\<rparr>,
         msg_ex 1.5 \<lparr>getRotation = [[1, 0, 0], [0, 0, 1], [0, -1, 0]], getPosition = [-1, -3, 2]\<rparr>],
      keyframe_ids = [\<lparr>data = 5\<rparr>, \<lparr>data = 7\<rparr>, \<lparr>data = 9\<rparr>]\<rparr>"

text \<open>A second instance, for a \<open>cv::Mat\<close> of doubles (\<open>CV_64F\<close>): \<open>cv2eigen\<close> then
  narrows every entry to \<open>float\<close>. A double and a float are the real numbers they denote.
  \<open>float_of_double\<close> is the IEEE 754 conversion to binary32 in the normal range: 24
  significant bits, round to nearest, ties to the even significand (overflow and subnormal
  numbers are not covered). The cast back to double is exact.\<close>

definition round_ties_even :: "real \<Rightarrow> int" where
  "round_ties_even y =
     (let f = \<lfloor>y\<rfloor> in
      if y - of_int f < 1 / 2 then f
      else if 1 / 2 < y - of_int f then f + 1
      else if even f then f else f + 1)"

definition float_of_double :: "real \<Rightarrow> real" where
  "float_of_double x =
     (if x = 0 then 0
      else let ulp = 2 powr (of_int \<lfloor>log 2 \<bar>x\<bar>\<rfloor> - 23)
           in of_int (round_ties_even (x / ulp)) * ulp)"

definition E_f64 :: "(real, real, real, rot, rot) conv_lib" where
  "E_f64 = \<lparr>cv2eigen_elem = float_of_double, cast_double = (\<lambda>x. x), AngleAxisd = (\<lambda>R. R),
            toRotationMatrix = (\<lambda>aa. aa), Quaternion = (\<lambda>R. R)\<rparr>"

definition M_big :: "real cv_Mat" where
  "M_big = \<lparr>rows = 4, cols = 4,
            elems = [[1, 0, 0, 16777217], [0, 1, 0, 2], [0, 0, 1, 3], [0, 0, 0, 1]]\<rparr>"

definition M_123 :: "real cv_Mat" where
  "M_123 = \<lparr>rows = 4, cols = 4,
            elems = [[1, 0, 0, 1], [0, 1, 0, 2], [0, 0, 1, 3], [0, 0, 0, 1]]\<rparr>"

definition D_ex :: defaults where
  "D_ex = \<lparr>kDefaultUseViewer = False, kDefaultVerbose = False,
           kDefaultFrameId = ''world'', kDefaultChildFrameId = ''cam0''\<rparr>"

definition P_ex :: ros_params where
  "P_ex = \<lparr>vocabulary_file_path = Some ''voc.txt'', settings_file_path = Some ''cfg.yaml'',
           use_viewer = None, verbose = Some True,
           frame_id_param = Some ''map'', child_frame_id_param = None\<rparr>"

definition st_ex :: "(rot, real, real, kindr, kindr) OrbSlam2Interface" where
  "st_ex = \<lparr>use_viewer_m = False, verbose_m = True,
            frame_id_m = ''map'', child_frame_id_m = ''cam0'',
            vocabulary_file_path_m = ''voc.txt'', settings_file_path_m = ''cfg.yaml'',
            mb_shutdown_flag = False,
            T_W_C_m = \<lparr>getRotation = [[1, 0, 0], [0, 1, 0], [0, 0, 1]], getPosition = [0, 0, 0]\<rparr>,
            T_pub_m = [], trajectory_pub_m = [], tf_broadcaster_m = []\<rparr>"

text \<open>The polling thread between the test of the flag and the availability query, and
  about to fetch.\<close>

definition w_ex :: "(rot, real, real, kindr, kindr) world" where
  "w_ex = \<lparr>ifc = st_ex, pc = AvailCheck, calls = []\<rparr>"

definition w_fetch :: "(rot, real, real, kindr, kindr) world" where
  "w_fetch = \<lparr>ifc = st_ex, pc = FetchPublish, calls = [IsUpdatedTrajectoryAvailable]\<rparr>"

definition acts_ex :: "(real, real) action list" where
  "acts_ex = [PollerStep True snap_ex, PollerStep True snap_ex, ShutdownCall,
              PollerStep True snap_ex, PollerStep True snap_ex, PollerStep True snap_ex]"

section \<open>Properties of the pose converter\<close>

lemma upt_4: "[0..<4] = [0, 1, 2, 3]"
  by (simp add: upt_rec)

lemma upt_3: "[0..<3] = [0, 1, 2]"
  by (simp add: upt_rec)

lemma upt_1: "[0..<1] = [0]"
  by (simp add: upt_rec)

lemma translation_block:
  "Vector3d (block 3 1 0 3 (map (map g) (cv2eigen f T_cv))) =
     [g (f (at_cv T_cv 0 3)), g (f (at_cv T_cv 1 3)), g (f (at_cv T_cv 2 3))]"
  by (simp add: Vector3d_def block_def cv2eigen_def upt_4 upt_3 upt_1)

lemma convert_ok:
  "T_kindr \<noteq> None \<Longrightarrow> cols T_cv = 4 \<Longrightarrow> rows T_cv = 4 \<Longrightarrow>
   convertOrbSlamPoseToKindr E T_cv T_kindr =
     Inr \<lparr>getRotation =
            Quaternion E (toRotationMatrix E (AngleAxisd E
              (block 3 3 0 0 (map (map (cast_double E)) (cv2eigen (cv2eigen_elem E) T_cv))))),
          getPosition =
            [cast_double E (cv2eigen_elem E (at_cv T_cv 0 3)),
             cast_double E (cv2eigen_elem E (at_cv T_cv 1 3)),
             cast_double E (cv2eigen_elem E (at_cv T_cv 2 3))]\<rparr>"
  unfolding convertOrbSlamPoseToKindr_def Let_def translation_block
  by simp

lemma rotation_block:
  "block 3 3 0 0 (map (map g) (cv2eigen f T_cv)) =
     [[g (f (elems T_cv ! 0 ! 0)), g (f (elems T_cv ! 0 ! 1)), g (f (elems T_cv ! 0 ! 2))],
      [g (f (elems T_cv ! 1 ! 0)), g (f (elems T_cv ! 1 ! 1)), g (f (elems T_cv ! 1 ! 2))],
      [g (f (elems T_cv ! 2 ! 0)), g (f (elems T_cv ! 2 ! 1)), g (f (elems T_cv ! 2 ! 2))]]"
  by (simp add: block_def cv2eigen_def at_cv_def upt_4 upt_3)

lemma convert_value:
  "T_kindr \<noteq> None \<Longrightarrow> cols T_cv = 4 \<Longrightarrow> rows T_cv = 4 \<Longrightarrow>
   convertOrbSlamPoseToKindr E T_cv T_kindr =
     Inr \<lparr>getRotation =
            Quaternion E (toRotationMatrix E (AngleAxisd E
              [[entry_as_double E T_cv 0 0, entry_as_double E T_cv 0 1, entry_as_double E T_cv 0 2],
               [entry_as_double E T_cv 1 0, entry_as_double E T_cv 1 1, entry_as_double E T_cv 1 2],
               [entry_as_double E T_cv 2 0, entry_as_double E T_cv 2 1, entry_as_double E T_cv 2 2]])),
          getPosition =
            [entry_as_double E T_cv 0 3, entry_as_double E T_cv 1 3, entry_as_double E T_cv 2 3]\<rparr>"
  unfolding convertOrbSlamPoseToKindr_def Let_def translation_block rotation_block at_cv_def
  by simp

lemma convert_Inr_shape:
  "convertOrbSlamPoseToKindr E T_cv T_kindr = Inr T \<Longrightarrow>
   T_kindr \<noteq> None \<and> cols T_cv = 4 \<and> rows T_cv = 4"
  by (simp add: convertOrbSlamPoseToKindr_def Let_def split: if_splits)

lemma convert_Inl:
  "convertOrbSlamPoseToKindr E T_cv (Some T0) = Inl e \<Longrightarrow> e = InvalidInputShape"
  unfolding convertOrbSlamPoseToKindr_def Let_def
  by (simp split: if_splits)

text \<open>The converter evaluated on the two example poses.\<close>

lemma convert_M_ex:
  "convertOrbSlamPoseToKindr E_ex M_ex (Some T0) =
     Inr \<lparr>getRotation = [[1, 0, 0], [0, 0, -1], [0, 1, 0]], getPosition = [1, 2, 3]\<rparr>"
proof -
  have "cols M_ex = 4" "rows M_ex = 4" by (simp_all add: M_ex_def)
  from convert_ok [OF _ this, of "Some T0" E_ex] show ?thesis
    by (simp add: E_ex_def M_ex_def at_cv_def block_def cv2eigen_def upt_4 upt_3)
qed

lemma convert_M_id:
  "convertOrbSlamPoseToKindr E_ex M_id (Some T0) =
     Inr \<lparr>getRotation = [[1, 0, 0], [0, 1, 0], [0, 0, 1]], getPosition = [0, 0, 0]\<rparr>"
proof -
  have "cols M_id = 4" "rows M_id = 4" by (simp_all add: M_id_def)
  from convert_ok [OF _ this, of "Some T0" E_ex] show ?thesis
    by (simp add: E_ex_def M_id_def at_cv_def block_def cv2eigen_def upt_4 upt_3)
qed

text \<open>
  Claim C5. The converter requires a 4 by 4 input. Called with a valid output pointer, it
  fails with \<open>InvalidInputShape\<close> exactly when the input does not have 4 rows and
  4 columns, and it produces a Transformation exactly when the input has 4 rows and
  4 columns: on a 4 by 4 input no error branch is taken.
\<close>

theorem convert_shape_check:
  assumes "T_kindr \<noteq> None"
  shows "(convertOrbSlamPoseToKindr E T_cv T_kindr = Inl InvalidInputShape)
           = (\<not> (rows T_cv = 4 \<and> cols T_cv = 4)) \<and>
         (\<exists>T. convertOrbSlamPoseToKindr E T_cv T_kindr = Inr T)
           = (rows T_cv = 4 \<and> cols T_cv = 4)"
proof (cases "rows T_cv = 4 \<and> cols T_cv = 4")
  case True
  then have "cols T_cv = 4" "rows T_cv = 4" by simp_all
  from convert_ok [OF assms this, of E] True show ?thesis by auto
next
  case False
  then have "convertOrbSlamPoseToKindr E T_cv T_kindr = Inl InvalidInputShape"
    using assms by (auto simp: convertOrbSlamPoseToKindr_def)
  with False show ?thesis by simp
qed

theorem convert_shape_check_witness:
  "Some (Transformation_default L_ex) \<noteq> None \<and>
   \<not> (rows M_bad = 4 \<and> cols M_bad = 4) \<and>
   convertOrbSlamPoseToKindr E_ex M_bad (Some (Transformation_default L_ex))
     = Inl InvalidInputShape \<and>
   (rows M_ex = 4 \<and> cols M_ex = 4) \<and>
   (\<exists>T. convertOrbSlamPoseToKindr E_ex M_ex (Some (Transformation_default L_ex)) = Inr T)"
proof -
  have h: "Some (Transformation_default L_ex) \<noteq> None" by simp
  have bad: "\<not> (rows M_bad = 4 \<and> cols M_bad = 4)" by (simp add: M_bad_def)
  have ok: "rows M_ex = 4 \<and> cols M_ex = 4" by (simp add: M_ex_def)
  from convert_shape_check [OF h, of E_ex M_bad] bad
  have 1: "convertOrbSlamPoseToKindr E_ex M_bad (Some (Transformation_default L_ex))
             = Inl InvalidInputShape"
    by blast
  from convert_shape_check [OF h, of E_ex M_ex] ok
  have 2: "\<exists>T. convertOrbSlamPoseToKindr E_ex M_ex (Some (Transformation_default L_ex)) = Inr T"
    by blast
  from h bad ok 1 2 show ?thesis by blast
qed

text \<open>The narrowing to \<open>float\<close> on the values used below: small integers are kept,
  \<open>2\<^sup>2\<^sup>4 + 1\<close> is not a float and goes to \<open>2\<^sup>2\<^sup>4\<close>.\<close>

lemma float_of_double_eval:
  assumes "x \<noteq> 0" and "2 powr of_int e \<le> \<bar>x\<bar>" and "\<bar>x\<bar> < 2 powr of_int (e + 1)"
  shows "float_of_double x =
           of_int (round_ties_even (x / 2 powr (of_int e - 23))) * 2 powr (of_int e - 23)"
proof -
  have "\<lfloor>log 2 \<bar>x\<bar>\<rfloor> = e"
    using assms by (subst floor_log_eq_powr_iff) auto
  with assms(1) show ?thesis
    by (simp add: float_of_double_def Let_def)
qed

lemma float_of_double_0: "float_of_double 0 = 0"
  by (simp add: float_of_double_def)

lemma float_of_double_1: "float_of_double 1 = 1"
  using float_of_double_eval [of 1 0]
  by (simp add: round_ties_even_def powr_minus)

lemma float_of_double_2: "float_of_double 2 = 2"
  using float_of_double_eval [of 2 1]
  by (simp add: round_ties_even_def powr_minus)

lemma float_of_double_3: "float_of_double 3 = 3"
  using float_of_double_eval [of 3 1]
  by (simp add: round_ties_even_def powr_minus)

lemma float_of_double_16777217: "float_of_double 16777217 = 16777216"
  using float_of_double_eval [of 16777217 24]
  by (simp add: round_ties_even_def)

text \<open>
  Claim C4, as stated, fails on a matrix of doubles: the translation (16777217, 2, 3)
  comes out as (16777216, 2, 3), because every entry passes through the float matrix
  \<open>T_eigen_f\<close>.
\<close>

theorem convert_translation_exact_counterexample:
  "rows M_big = 4 \<and> cols M_big = 4 \<and>
   [elems M_big ! 0 ! 3, elems M_big ! 1 ! 3, elems M_big ! 2 ! 3] = [16777217, 2, 3] \<and>
   convertOrbSlamPoseToKindr E_f64 M_big (Some (Transformation_default L_ex)) =
     Inr \<lparr>getRotation = [[1, 0, 0], [0, 1, 0], [0, 0, 1]], getPosition = [16777216, 2, 3]\<rparr> \<and>
   [16777216, 2, 3] \<noteq> [elems M_big ! 0 ! 3, elems M_big ! 1 ! 3, elems M_big ! 2 ! 3]"
proof -
  have s: "Some (Transformation_default L_ex) \<noteq> None" "cols M_big = 4" "rows M_big = 4"
    by (simp_all add: M_big_def)
  have e: "[elems M_big ! 0 ! 3, elems M_big ! 1 ! 3, elems M_big ! 2 ! 3] = [16777217, 2, 3]"
    by (simp add: M_big_def)
  have c: "convertOrbSlamPoseToKindr E_f64 M_big (Some (Transformation_default L_ex)) =
     Inr \<lparr>getRotation = [[1, 0, 0], [0, 1, 0], [0, 0, 1]], getPosition = [16777216, 2, 3]\<rparr>"
    unfolding convert_value [OF s, of E_f64]
    by (simp add: E_f64_def M_big_def float_of_double_0 float_of_double_1 float_of_double_2
          float_of_double_3 float_of_double_16777217)
  from s e c show ?thesis by simp
qed

text \<open>
  Claim C4, amended. For every 4 by 4 input (and a valid output pointer) the converter
  produces a Transformation whose translation is the top-right 3 by 1 block of the input,
  entries (0,3), (1,3), (2,3) in this order, each converted to float by \<open>cv2eigen\<close> and
  cast to double, and changed by nothing else: no value computed from the rotation block
  reaches it. When this conversion leaves the three entries as they are (they are float
  values, as in (1, 2, 3)), the translation is the input block exactly. For the comparison
  with the input, the entries of the input and the doubles are values of one type.
\<close>

theorem convert_translation_4x4:
  assumes "T_kindr \<noteq> None" and "rows T_cv = 4" and "cols T_cv = 4"
  shows "\<exists>T. convertOrbSlamPoseToKindr E T_cv T_kindr = Inr T \<and>
             getPosition T =
               [cast_double E (cv2eigen_elem E (elems T_cv ! 0 ! 3)),
                cast_double E (cv2eigen_elem E (elems T_cv ! 1 ! 3)),
                cast_double E (cv2eigen_elem E (elems T_cv ! 2 ! 3))] \<and>
             ((\<forall>k<3. cast_double E (cv2eigen_elem E (elems T_cv ! k ! 3)) = elems T_cv ! k ! 3) \<longrightarrow>
              getPosition T = [elems T_cv ! 0 ! 3, elems T_cv ! 1 ! 3, elems T_cv ! 2 ! 3])"
proof -
  let ?T = "\<lparr>getRotation =
            Quaternion E (toRotationMatrix E (AngleAxisd E
              [[entry_as_double E T_cv 0 0, entry_as_double E T_cv 0 1, entry_as_double E T_cv 0 2],
               [entry_as_double E T_cv 1 0, entry_as_double E T_cv 1 1, entry_as_double E T_cv 1 2],
               [entry_as_double E T_cv 2 0, entry_as_double E T_cv 2 1, entry_as_double E T_cv 2 2]])),
          getPosition =
            [entry_as_double E T_cv 0 3, entry_as_double E T_cv 1 3, entry_as_double E T_cv 2 3]\<rparr>"
  have c: "convertOrbSlamPoseToKindr E T_cv T_kindr = Inr ?T"
    by (rule convert_value [OF assms(1) assms(3) assms(2)])
  have p: "getPosition ?T =
             [cast_double E (cv2eigen_elem E (elems T_cv ! 0 ! 3)),
              cast_double E (cv2eigen_elem E (elems T_cv ! 1 ! 3)),
              cast_double E (cv2eigen_elem E (elems T_cv ! 2 ! 3))]"
    by simp
  have x: "getPosition ?T = [elems T_cv ! 0 ! 3, elems T_cv ! 1 ! 3, elems T_cv ! 2 ! 3]"
    if "\<forall>k<3. cast_double E (cv2eigen_elem E (elems T_cv ! k ! 3)) = elems T_cv ! k ! 3"
  proof -
    from that have "cast_double E (cv2eigen_elem E (elems T_cv ! 0 ! 3)) = elems T_cv ! 0 ! 3"
      "cast_double E (cv2eigen_elem E (elems T_cv ! 1 ! 3)) = elems T_cv ! 1 ! 3"
      "cast_double E (cv2eigen_elem E (elems T_cv ! 2 ! 3)) = elems T_cv ! 2 ! 3"
      by simp_all
    then show ?thesis by simp
  qed
  from c p x show ?thesis by blast
qed

theorem convert_translation_4x4_witness:
  "Some (Transformation_default L_ex) \<noteq> None \<and> rows M_123 = 4 \<and> cols M_123 = 4 \<and>
   cast_double E_f64 (cv2eigen_elem E_f64 (elems M_123 ! 0 ! 3)) = elems M_123 ! 0 ! 3 \<and>
   cast_double E_f64 (cv2eigen_elem E_f64 (elems M_123 ! 1 ! 3)) = elems M_123 ! 1 ! 3 \<and>
   cast_double E_f64 (cv2eigen_elem E_f64 (elems M_123 ! 2 ! 3)) = elems M_123 ! 2 ! 3 \<and>
   (\<exists>T. convertOrbSlamPoseToKindr E_f64 M_123 (Some (Transformation_default L_ex)) = Inr T \<and>
        getPosition T = [1, 2, 3])"
proof -
  have h: "Some (Transformation_default L_ex) \<noteq> None" "rows M_123 = 4" "cols M_123 = 4"
    by (simp_all add: M_123_def)
  have r: "cast_double E_f64 (cv2eigen_elem E_f64 (elems M_123 ! k ! 3)) = elems M_123 ! k ! 3"
    if "k < 3" for k
  proof -
    from that have "k = 0 \<or> k = 1 \<or> k = 2" by arith
    then show ?thesis
      by (auto simp: E_f64_def M_123_def float_of_double_1 float_of_double_2 float_of_double_3)
  qed
  then have a: "\<forall>k<3. cast_double E_f64 (cv2eigen_elem E_f64 (elems M_123 ! k ! 3))
                        = elems M_123 ! k ! 3"
    by blast
  from convert_translation_4x4 [OF h, of E_f64] a obtain T
    where T: "convertOrbSlamPoseToKindr E_f64 M_123 (Some (Transformation_default L_ex)) = Inr T"
      "getPosition T = [elems M_123 ! 0 ! 3, elems M_123 ! 1 ! 3, elems M_123 ! 2 ! 3]"
    by blast
  from T(2) have "getPosition T = [1, 2, 3]"
    by (simp add: M_123_def)
  with T(1) h r [of 0] r [of 1] r [of 2] show ?thesis by simp
qed

section \<open>Properties of the trajectory batch\<close>

lemma trajectory_entry_ok:
  "cols (pose p) = 4 \<Longrightarrow> rows (pose p) = 4 \<Longrightarrow> \<exists>e. trajectory_entry E L p = Inr e"
  by (simp add: trajectory_entry_def convert_ok Let_def)

lemma trajectory_entry_Inl:
  "trajectory_entry E L p = Inl e \<Longrightarrow> e = InvalidInputShape"
  unfolding trajectory_entry_def Let_def
  by (simp split: sum.splits add: convert_Inl)

lemma populate_total:
  "\<forall>p \<in> set snap. cols (pose p) = 4 \<and> rows (pose p) = 4 \<Longrightarrow> \<exists>b. populate E L snap m = Inr b"
proof (induction snap arbitrary: m)
  case Nil
  show ?case by (rule exI [of _ m]) simp
next
  case (Cons p ps)
  have "cols (pose p) = 4" "rows (pose p) = 4"
    using Cons.prems by simp_all
  from trajectory_entry_ok [OF this, of E L] obtain t k
    where e: "trajectory_entry E L p = Inr (t, k)"
    by (metis surj_pair)
  have "\<forall>p \<in> set ps. cols (pose p) = 4 \<and> rows (pose p) = 4"
    using Cons.prems by simp
  from Cons.IH [OF this] obtain b
    where "populate E L ps (m\<lparr>transforms := transforms m @ [t],
                               keyframe_ids := keyframe_ids m @ [k]\<rparr>) = Inr b"
    by blast
  then have "populate E L (p # ps) m = Inr b"
    by (simp add: e)
  then show ?case by (rule exI)
qed

text \<open>The only way the loop fails is the shape check of a pose, and then it stops at once:
  the failure is not caught.\<close>

lemma populate_Inl:
  "populate E L snap m = Inl e \<Longrightarrow> e = InvalidInputShape"
proof (induction snap arbitrary: m)
  case Nil
  then show ?case by simp
next
  case (Cons p ps)
  show ?case
  proof (cases "trajectory_entry E L p")
    case (Inl e')
    with Cons.prems have "e = e'" by simp
    with Inl show ?thesis by (simp add: trajectory_entry_Inl)
  next
    case (Inr tk)
    obtain t k where "tk = (t, k)" by (cases tk)
    with Cons.prems Inr
    have "populate E L ps (m\<lparr>transforms := transforms m @ [t],
                              keyframe_ids := keyframe_ids m @ [k]\<rparr>) = Inl e"
      by simp
    then show ?thesis by (rule Cons.IH)
  qed
qed

lemma populate_entries:
  "populate E L snap m = Inr b \<Longrightarrow>
   \<exists>es. length es = length snap \<and>
        (\<forall>i<length snap. trajectory_entry E L (snap ! i) = Inr (es ! i)) \<and>
        transforms b = transforms m @ map fst es \<and>
        keyframe_ids b = keyframe_ids m @ map snd es"
proof (induction snap arbitrary: m)
  case Nil
  then have "b = m" by simp
  then show ?case by (intro exI [of _ "[]"]) simp
next
  case (Cons p ps)
  show ?case
  proof (cases "trajectory_entry E L p")
    case (Inl e)
    with Cons.prems show ?thesis by simp
  next
    case (Inr tk)
    obtain t k where tk: "tk = (t, k)" by (cases tk)
    from Cons.prems Inr tk
    have r: "populate E L ps (m\<lparr>transforms := transforms m @ [t],
                                 keyframe_ids := keyframe_ids m @ [k]\<rparr>) = Inr b"
      by simp
    from Cons.IH [OF r] obtain es where es: "length es = length ps"
      "\<forall>i<length ps. trajectory_entry E L (ps ! i) = Inr (es ! i)"
      "transforms b = (transforms m @ [t]) @ map fst es"
      "keyframe_ids b = (keyframe_ids m @ [k]) @ map snd es"
      by auto
    have "\<forall>i<length (p # ps). trajectory_entry E L ((p # ps) ! i) = Inr (((t, k) # es) ! i)"
      using Inr tk es(2) by (simp add: nth_Cons split: nat.splits)
    with es show ?thesis
      by (intro exI [of _ "(t, k) # es"]) simp
  qed
qed

text \<open>The loop evaluated on the example snapshot, whose ids are 5, 7, 9.\<close>

lemma populate_snap_ex:
  "populate E_ex L_ex snap_ex \<lparr>transforms = [], keyframe_ids = []\<rparr> = Inr batch_ex"
  by (simp add: snap_ex_def batch_ex_def msg_ex_def trajectory_entry_def convert_M_ex convert_M_id
        L_ex_def transpose3_def mat_vec_def upt_3)

lemma trajectory_entry_value:
  assumes "trajectory_entry E L p = Inr (t, k)"
  shows "k = \<lparr>data = id_kf p\<rparr>"
    and "t = \<lparr>header = \<lparr>seq = 0, stamp = ros_Time L (timestamp p), frame_id = []\<rparr>,
              child_frame_id = [],
              transform = transformKindrToMsg L (inverse_T L
                \<lparr>getRotation =
                   Quaternion E (toRotationMatrix E (AngleAxisd E
                     [[entry_as_double E (pose p) 0 0, entry_as_double E (pose p) 0 1,
                       entry_as_double E (pose p) 0 2],
                      [entry_as_double E (pose p) 1 0, entry_as_double E (pose p) 1 1,
                       entry_as_double E (pose p) 1 2],
                      [entry_as_double E (pose p) 2 0, entry_as_double E (pose p) 2 1,
                       entry_as_double E (pose p) 2 2]])),
                 getPosition =
                   [entry_as_double E (pose p) 0 3, entry_as_double E (pose p) 1 3,
                    entry_as_double E (pose p) 2 3]\<rparr>)\<rparr>"
proof -
  obtain T_C_W where c: "convertOrbSlamPoseToKindr E (pose p) (Some (Transformation_default L)) = Inr T_C_W"
    using assms by (cases "convertOrbSlamPoseToKindr E (pose p) (Some (Transformation_default L))")
      (simp_all add: trajectory_entry_def)
  from convert_Inr_shape [OF c] have s: "cols (pose p) = 4" "rows (pose p) = 4"
    by simp_all
  have n: "Some (Transformation_default L) \<noteq> None" by simp
  note v = convert_value [OF n s, of E]
  from assms show "k = \<lparr>data = id_kf p\<rparr>"
    unfolding trajectory_entry_def Let_def v by simp
  from assms show "t = \<lparr>header = \<lparr>seq = 0, stamp = ros_Time L (timestamp p), frame_id = []\<rparr>,
              child_frame_id = [],
              transform = transformKindrToMsg L (inverse_T L
                \<lparr>getRotation =
                   Quaternion E (toRotationMatrix E (AngleAxisd E
                     [[entry_as_double E (pose p) 0 0, entry_as_double E (pose p) 0 1,
                       entry_as_double E (pose p) 0 2],
                      [entry_as_double E (pose p) 1 0, entry_as_double E (pose p) 1 1,
                       entry_as_double E (pose p) 1 2],
                      [entry_as_double E (pose p) 2 0, entry_as_double E (pose p) 2 1,
                       entry_as_double E (pose p) 2 2]])),
                 getPosition =
                   [entry_as_double E (pose p) 0 3, entry_as_double E (pose p) 1 3,
                    entry_as_double E (pose p) 2 3]\<rparr>)\<rparr>"
    unfolding trajectory_entry_def Let_def v by simp
qed

text \<open>
  Claim C1. When the polling thread fetches a snapshot of length N, either it publishes
  exactly one batch, whose \<open>transforms\<close> and \<open>keyframe_ids\<close> both have length N and
  in which, at every index i < N, the id is the id of the i-th \<open>PoseWithID\<close> of the
  snapshot and the transform is the one made from the i-th \<open>PoseWithID\<close>: stamped with
  its timestamp, and holding the message form of the inverse of the Transformation whose
  rotation is repaired from the 3 by 3 block of its pose and whose translation is the
  last column of its pose. Or some pose of the snapshot is not 4 by 4, the process aborts
  and nothing is published. A batch with arrays of different lengths is never published.
\<close>

theorem published_batch_parallel_arrays:
  assumes "pc w = FetchPublish"
  shows "(\<exists>b. trajectory_pub_m (ifc (poller_step E L avail snap w)) = trajectory_pub_m (ifc w) @ [b] \<and>
              length (transforms b) = length snap \<and>
              length (keyframe_ids b) = length snap \<and>
              (\<forall>i<length snap.
                 keyframe_ids b ! i = \<lparr>data = id_kf (snap ! i)\<rparr> \<and>
                 transforms b ! i =
                   \<lparr>header = \<lparr>seq = 0, stamp = ros_Time L (timestamp (snap ! i)), frame_id = []\<rparr>,
                    child_frame_id = [],
                    transform = transformKindrToMsg L (inverse_T L
                      \<lparr>getRotation =
                         Quaternion E (toRotationMatrix E (AngleAxisd E
                           [[entry_as_double E (pose (snap ! i)) 0 0,
                             entry_as_double E (pose (snap ! i)) 0 1,
                             entry_as_double E (pose (snap ! i)) 0 2],
                            [entry_as_double E (pose (snap ! i)) 1 0,
                             entry_as_double E (pose (snap ! i)) 1 1,
                             entry_as_double E (pose (snap ! i)) 1 2],
                            [entry_as_double E (pose (snap ! i)) 2 0,
                             entry_as_double E (pose (snap ! i)) 2 1,
                             entry_as_double E (pose (snap ! i)) 2 2]])),
                       getPosition =
                         [entry_as_double E (pose (snap ! i)) 0 3,
                          entry_as_double E (pose (snap ! i)) 1 3,
                          entry_as_double E (pose (snap ! i)) 2 3]\<rparr>)\<rparr>)) \<or>
         (trajectory_pub_m (ifc (poller_step E L avail snap w)) = trajectory_pub_m (ifc w) \<and>
          pc (poller_step E L avail snap w) = Aborted \<and>
          (\<exists>p \<in> set snap. \<not> (rows (pose p) = 4 \<and> cols (pose p) = 4)))"
proof (cases "populate E L snap \<lparr>transforms = [], keyframe_ids = []\<rparr>")
  case (Inl e)
  have "\<exists>p \<in> set snap. \<not> (rows (pose p) = 4 \<and> cols (pose p) = 4)"
  proof (rule ccontr)
    assume "\<not> ?thesis"
    then have "\<forall>p \<in> set snap. cols (pose p) = 4 \<and> rows (pose p) = 4" by blast
    from populate_total [OF this, of E L "\<lparr>transforms = [], keyframe_ids = []\<rparr>"] Inl
    show False by simp
  qed
  moreover have "trajectory_pub_m (ifc (poller_step E L avail snap w)) = trajectory_pub_m (ifc w)"
    "pc (poller_step E L avail snap w) = Aborted"
    using assms Inl by (simp_all add: poller_step_def)
  ultimately show ?thesis by blast
next
  case (Inr b)
  from populate_entries [OF Inr] obtain es where es: "length es = length snap"
    "\<forall>i<length snap. trajectory_entry E L (snap ! i) = Inr (es ! i)"
    "transforms b = map fst es" "keyframe_ids b = map snd es"
    by auto
  have 1: "trajectory_pub_m (ifc (poller_step E L avail snap w)) = trajectory_pub_m (ifc w) @ [b]"
    using assms Inr by (simp add: poller_step_def)
  have 2: "length (transforms b) = length snap" "length (keyframe_ids b) = length snap"
    using es by simp_all
  have 3: "trajectory_entry E L (snap ! i) = Inr (transforms b ! i, keyframe_ids b ! i)"
    if "i < length snap" for i
    using es that by simp
  show ?thesis
    apply (rule disjI1)
    apply (rule exI [of _ b])
    apply (intro conjI allI impI)
        apply (rule 1)
       apply (rule 2(1))
      apply (rule 2(2))
     apply (erule trajectory_entry_value(1) [OF 3])
    apply (erule trajectory_entry_value(2) [OF 3])
    done
qed

theorem published_batch_parallel_arrays_witness:
  "pc w_fetch = FetchPublish \<and> length snap_ex = 3 \<and>
   trajectory_pub_m (ifc (poller_step E_ex L_ex True snap_ex w_fetch)) = [batch_ex] \<and>
   (\<exists>b. trajectory_pub_m (ifc (poller_step E_ex L_ex True snap_ex w_fetch)) = trajectory_pub_m (ifc w_fetch) @ [b] \<and>
              length (transforms b) = length snap_ex \<and>
              length (keyframe_ids b) = length snap_ex \<and>
              (\<forall>i<length snap_ex.
                 keyframe_ids b ! i = \<lparr>data = id_kf (snap_ex ! i)\<rparr> \<and>
                 transforms b ! i =
                   \<lparr>header = \<lparr>seq = 0, stamp = ros_Time L_ex (timestamp (snap_ex ! i)), frame_id = []\<rparr>,
                    child_frame_id = [],
                    transform = transformKindrToMsg L_ex (inverse_T L_ex
                      \<lparr>getRotation =
                         Quaternion E_ex (toRotationMatrix E_ex (AngleAxisd E_ex
                           [[entry_as_double E_ex (pose (snap_ex ! i)) 0 0,
                             entry_as_double E_ex (pose (snap_ex ! i)) 0 1,
                             entry_as_double E_ex (pose (snap_ex ! i)) 0 2],
                            [entry_as_double E_ex (pose (snap_ex ! i)) 1 0,
                             entry_as_double E_ex (pose (snap_ex ! i)) 1 1,
                             entry_as_double E_ex (pose (snap_ex ! i)) 1 2],
                            [entry_as_double E_ex (pose (snap_ex ! i)) 2 0,
                             entry_as_double E_ex (pose (snap_ex ! i)) 2 1,
                             entry_as_double E_ex (pose (snap_ex ! i)) 2 2]])),
                       getPosition =
                         [entry_as_double E_ex (pose (snap_ex ! i)) 0 3,
                          entry_as_double E_ex (pose (snap_ex ! i)) 1 3,
                          entry_as_double E_ex (pose (snap_ex ! i)) 2 3]\<rparr>)\<rparr>))"
proof -
  have h: "pc w_fetch = FetchPublish"
    by (simp add: w_fetch_def)
  have n: "length snap_ex = 3"
    by (simp add: snap_ex_def)
  have p: "trajectory_pub_m (ifc (poller_step E_ex L_ex True snap_ex w_fetch)) = [batch_ex]"
    by (simp add: poller_step_def w_fetch_def st_ex_def populate_snap_ex)
  have "pc (poller_step E_ex L_ex True snap_ex w_fetch) \<noteq> Aborted"
    by (simp add: poller_step_def w_fetch_def populate_snap_ex)
  with published_batch_parallel_arrays [OF h, of E_ex L_ex True snap_ex] h n p
  show ?thesis by blast
qed

text \<open>
  Claim C3. In a batch built from a snapshot, for every index i of the snapshot: the pose
  of the i-th entry converts to some \<open>T_C_W\<close>, the transform at index i of the batch is
  the message form of the inverse of \<open>T_C_W\<close>, its stamp is the \<open>ros::Time\<close> made
  from the entry's timestamp, and the id at index i is the entry's id.
\<close>

theorem batch_entries_inverted_and_tagged:
  assumes "populate E L snap \<lparr>transforms = [], keyframe_ids = []\<rparr> = Inr b"
      and "i < length snap"
  shows "\<exists>T_C_W. convertOrbSlamPoseToKindr E (pose (snap ! i)) (Some (Transformation_default L))
                    = Inr T_C_W \<and>
                 transform (transforms b ! i) = transformKindrToMsg L (inverse_T L T_C_W) \<and>
                 stamp (header (transforms b ! i)) = ros_Time L (timestamp (snap ! i)) \<and>
                 data (keyframe_ids b ! i) = id_kf (snap ! i)"
proof -
  from populate_entries [OF assms(1)] obtain es where es: "length es = length snap"
    "\<forall>i<length snap. trajectory_entry E L (snap ! i) = Inr (es ! i)"
    "transforms b = map fst es" "keyframe_ids b = map snd es"
    by auto
  from es assms(2) have e: "trajectory_entry E L (snap ! i) = Inr (transforms b ! i, keyframe_ids b ! i)"
    by simp
  show ?thesis
  proof (cases "convertOrbSlamPoseToKindr E (pose (snap ! i)) (Some (Transformation_default L))")
    case (Inl err)
    with e show ?thesis by (simp add: trajectory_entry_def)
  next
    case (Inr T_C_W)
    with e have "transforms b ! i =
        \<lparr>header = \<lparr>seq = 0, stamp = ros_Time L (timestamp (snap ! i)), frame_id = []\<rparr>,
         child_frame_id = [], transform = transformKindrToMsg L (inverse_T L T_C_W)\<rparr>"
      and "keyframe_ids b ! i = \<lparr>data = id_kf (snap ! i)\<rparr>"
      by (simp_all add: trajectory_entry_def Let_def)
    then have "transform (transforms b ! i) = transformKindrToMsg L (inverse_T L T_C_W)"
      "stamp (header (transforms b ! i)) = ros_Time L (timestamp (snap ! i))"
      "data (keyframe_ids b ! i) = id_kf (snap ! i)"
      by simp_all
    with Inr show ?thesis by blast
  qed
qed

theorem batch_entries_inverted_and_tagged_witness:
  "populate E_ex L_ex snap_ex \<lparr>transforms = [], keyframe_ids = []\<rparr> = Inr batch_ex \<and>
   (1::nat) < length snap_ex \<and>
   (\<exists>T_C_W. convertOrbSlamPoseToKindr E_ex (pose (snap_ex ! 1)) (Some (Transformation_default L_ex))
              = Inr T_C_W \<and>
            transform (transforms batch_ex ! 1) = transformKindrToMsg L_ex (inverse_T L_ex T_C_W) \<and>
            stamp (header (transforms batch_ex ! 1)) = ros_Time L_ex (timestamp (snap_ex ! 1)) \<and>
            data (keyframe_ids batch_ex ! 1) = id_kf (snap_ex ! 1)) \<and>
   map data (keyframe_ids batch_ex) = [5, 7, 9]"
proof -
  have i: "(1::nat) < length snap_ex"
    by (simp add: snap_ex_def)
  have ids: "map data (keyframe_ids batch_ex) = [5, 7, 9]"
    by (simp add: batch_ex_def)
  from batch_entries_inverted_and_tagged [OF populate_snap_ex i] populate_snap_ex i ids
  show ?thesis by blast
qed

section \<open>Shutdown of the polling thread\<close>

lemma poller_step_flag:
  "mb_shutdown_flag (ifc (poller_step E L avail traj w)) = mb_shutdown_flag (ifc w)"
  by (simp add: poller_step_def split: pc.splits sum.splits)

lemma sys_step_flag:
  "mb_shutdown_flag (ifc w) \<Longrightarrow> mb_shutdown_flag (ifc (sys_step E L a w))"
  by (cases a) (simp_all add: poller_step_flag shutdown_def)

lemma run_flag:
  "mb_shutdown_flag (ifc w) \<Longrightarrow> mb_shutdown_flag (ifc (run E L acts w))"
  by (induction acts arbitrary: w) (simp_all add: sys_step_flag)

lemma poller_step_calls_left:
  "mb_shutdown_flag (ifc w) \<Longrightarrow>
   count_list (calls (poller_step E L avail traj w)) c + calls_left c (pc (poller_step E L avail traj w))
     \<le> count_list (calls w) c + calls_left c (pc w)"
  by (cases c; cases "pc w") (simp_all add: poller_step_def split: sum.splits)

lemma sys_step_calls_left:
  "mb_shutdown_flag (ifc w) \<Longrightarrow>
   count_list (calls (sys_step E L a w)) c + calls_left c (pc (sys_step E L a w))
     \<le> count_list (calls w) c + calls_left c (pc w)"
  by (cases a) (simp_all add: poller_step_calls_left)

lemma run_calls_left:
  "mb_shutdown_flag (ifc w) \<Longrightarrow>
   count_list (calls (run E L acts w)) c + calls_left c (pc (run E L acts w))
     \<le> count_list (calls w) c + calls_left c (pc w)"
proof (induction acts arbitrary: w)
  case Nil
  show ?case by simp
next
  case (Cons a as)
  have "count_list (calls (run E L as (sys_step E L a w))) c
          + calls_left c (pc (run E L as (sys_step E L a w)))
        \<le> count_list (calls (sys_step E L a w)) c + calls_left c (pc (sys_step E L a w))"
    by (rule Cons.IH) (rule sys_step_flag [OF Cons.prems])
  also have "\<dots> \<le> count_list (calls w) c + calls_left c (pc w)"
    by (rule sys_step_calls_left [OF Cons.prems])
  finally show ?case by simp
qed

lemma calls_left_le_1: "calls_left c p \<le> 1"
  by (cases c) simp_all

lemma run_calls_bound:
  "mb_shutdown_flag (ifc w) \<Longrightarrow> count_list (calls (run E L acts w)) c \<le> count_list (calls w) c + 1"
  using run_calls_left [of w E L acts c] calls_left_le_1 [of c "pc w"] by linarith

lemma poller_step_steps_left:
  "mb_shutdown_flag (ifc w) \<Longrightarrow>
   steps_left (pc (poller_step E L avail traj w)) \<le> steps_left (pc w) - 1"
  by (cases "pc w") (simp_all add: poller_step_def split: sum.splits)

lemma run_steps_left:
  "mb_shutdown_flag (ifc w) \<Longrightarrow>
   steps_left (pc (run E L acts w)) \<le> steps_left (pc w) - length (filter is_poller_step acts)"
proof (induction acts arbitrary: w)
  case Nil
  show ?case by simp
next
  case (Cons a as)
  note IH = Cons.IH [OF sys_step_flag [OF Cons.prems], of E L a]
  show ?case
  proof (cases a)
    case (PollerStep avail traj)
    with IH poller_step_steps_left [OF Cons.prems, of E L avail traj] show ?thesis
      by simp
  next
    case ShutdownCall
    with IH show ?thesis by simp
  qed
qed

lemma steps_left_0: "steps_left p = 0 \<Longrightarrow> p = Exited \<or> p = Aborted"
  by (cases p) simp_all

lemma steps_left_le_4: "steps_left p \<le> 4"
  by (cases p) simp_all

lemma run_Exited:
  "pc w = Exited \<Longrightarrow> pc (run E L acts w) = Exited \<and> calls (run E L acts w) = calls w
     \<and> trajectory_pub_m (ifc (run E L acts w)) = trajectory_pub_m (ifc w)"
proof (induction acts arbitrary: w)
  case Nil
  then show ?case by simp
next
  case (Cons a as)
  have s: "pc (sys_step E L a w) = Exited" "calls (sys_step E L a w) = calls w"
    "trajectory_pub_m (ifc (sys_step E L a w)) = trajectory_pub_m (ifc w)"
    using Cons.prems by (cases a; simp add: poller_step_def shutdown_def)+
  from Cons.IH [OF s(1)] s show ?case by simp
qed

text \<open>
  Claim C6. \<open>shutdown\<close> only sets the flag and is idempotent. From the moment it has
  been called, whatever the other threads and the engine do: the flag stays set; the
  polling thread makes at most one more availability query, at most one more fetch and
  at most one more sleep (it finishes the iteration it is in); after four of its own
  steps at the latest it has left the loop (or the process has aborted on a malformed
  pose); and once it has left the loop it makes no call and publishes nothing, ever.
  Time is counted in steps of the thread; the steps are atomic and interleave with the
  calls of \<open>shutdown\<close>.
\<close>

theorem shutdown_stops_poller:
  assumes "w = sys_step E L ShutdownCall w0" and "w' = run E L acts w"
  shows "ifc w = (ifc w0)\<lparr>mb_shutdown_flag := True\<rparr> \<and> pc w = pc w0 \<and> calls w = calls w0 \<and>
         sys_step E L ShutdownCall w = w \<and>
         mb_shutdown_flag (ifc w') \<and>
         count_list (calls w') IsUpdatedTrajectoryAvailable
           \<le> count_list (calls w0) IsUpdatedTrajectoryAvailable + 1 \<and>
         count_list (calls w') GetUpdatedTrajectory
           \<le> count_list (calls w0) GetUpdatedTrajectory + 1 \<and>
         count_list (calls w') (Usleep 5000) \<le> count_list (calls w0) (Usleep 5000) + 1 \<and>
         (4 \<le> length (filter is_poller_step acts) \<longrightarrow> pc w' = Exited \<or> pc w' = Aborted) \<and>
         (pc w' = Exited \<longrightarrow>
            pc (run E L later w') = Exited \<and> calls (run E L later w') = calls w' \<and>
            trajectory_pub_m (ifc (run E L later w')) = trajectory_pub_m (ifc w'))"
proof -
  have a: "ifc w = (ifc w0)\<lparr>mb_shutdown_flag := True\<rparr>" "pc w = pc w0" "calls w = calls w0"
    using assms(1) by (simp_all add: shutdown_def)
  have b: "sys_step E L ShutdownCall w = w"
    using assms(1) by (simp add: shutdown_def)
  have f: "mb_shutdown_flag (ifc w)"
    using a by simp
  have c: "mb_shutdown_flag (ifc w')"
    unfolding assms(2) by (rule run_flag [OF f])
  have d: "count_list (calls w') c \<le> count_list (calls w0) c + 1" for c
    unfolding assms(2) using run_calls_bound [OF f, of E L acts c] a by simp
  have e: "4 \<le> length (filter is_poller_step acts) \<longrightarrow> pc w' = Exited \<or> pc w' = Aborted"
  proof
    assume "4 \<le> length (filter is_poller_step acts)"
    with run_steps_left [OF f, of E L acts] steps_left_le_4 [of "pc w"]
    have "steps_left (pc w') = 0"
      unfolding assms(2) by linarith
    then show "pc w' = Exited \<or> pc w' = Aborted" by (rule steps_left_0)
  qed
  have g: "pc w' = Exited \<longrightarrow>
            pc (run E L later w') = Exited \<and> calls (run E L later w') = calls w' \<and>
            trajectory_pub_m (ifc (run E L later w')) = trajectory_pub_m (ifc w')"
    using run_Exited [of w' E L later] by blast
  from a b c d e g show ?thesis by blast
qed

theorem shutdown_stops_poller_witness:
  "4 \<le> length (filter is_poller_step acts_ex) \<and>
   pc (run E_ex L_ex acts_ex (sys_step E_ex L_ex ShutdownCall w_ex)) = Exited \<and>
   calls (run E_ex L_ex acts_ex (sys_step E_ex L_ex ShutdownCall w_ex))
     = [IsUpdatedTrajectoryAvailable, GetUpdatedTrajectory, Usleep 5000] \<and>
   count_list (calls (run E_ex L_ex acts_ex (sys_step E_ex L_ex ShutdownCall w_ex)))
       GetUpdatedTrajectory
     \<le> count_list (calls w_ex) GetUpdatedTrajectory + 1 \<and>
   calls (run E_ex L_ex acts_ex (run E_ex L_ex acts_ex (sys_step E_ex L_ex ShutdownCall w_ex)))
     = calls (run E_ex L_ex acts_ex (sys_step E_ex L_ex ShutdownCall w_ex))"
  (is "?N \<and> ?P \<and> ?C \<and> ?B \<and> ?L")
proof -
  have n: ?N
    by (simp add: acts_ex_def)
  have r: "run E_ex L_ex acts_ex (sys_step E_ex L_ex ShutdownCall w_ex) =
             \<lparr>ifc = st_ex\<lparr>mb_shutdown_flag := True, trajectory_pub_m := [batch_ex]\<rparr>,
              pc = Exited,
              calls = [IsUpdatedTrajectoryAvailable, GetUpdatedTrajectory, Usleep 5000]\<rparr>"
    by (simp add: acts_ex_def w_ex_def st_ex_def poller_step_def shutdown_def populate_snap_ex)
  have p: ?P and c: ?C
    by (simp_all only: r world.simps)
  note t = shutdown_stops_poller [OF refl refl, of E_ex L_ex w_ex acts_ex acts_ex]
  from t have b: ?B by blast
  from t p have l: ?L by blast
  from n p c b l show ?thesis by blast
qed

section \<open>Properties of the publishers\<close>

lemma ticks_frame:
  "T_W_C_m (ticks L nows st) = T_W_C_m st \<and> frame_id_m (ticks L nows st) = frame_id_m st \<and>
   child_frame_id_m (ticks L nows st) = child_frame_id_m st"
  by (induction nows arbitrary: st) (simp_all add: publishCurrentPoseAsTF_def)

lemma ticks_broadcast:
  "tf_broadcaster_m (ticks L nows st) =
     tf_broadcaster_m st @
       map (\<lambda>now. \<lparr>tf_transform = transformKindrToTF L (T_W_C_m st), tf_stamp = now,
                    tf_frame_id = frame_id_m st, tf_child_frame_id = child_frame_id_m st\<rparr>) nows"
  by (induction nows arbitrary: st) (simp_all add: publishCurrentPoseAsTF_def)

text \<open>The example state is the one the constructor builds from the example
  parameters.\<close>

lemma init_ex: "OrbSlam2Interface_init L_ex D_ex P_ex = Inr st_ex"
  by (simp add: OrbSlam2Interface_init_def getParametersFromRos_def getParam_def L_ex_def D_ex_def P_ex_def
        st_ex_def)

text \<open>
  Claim C9. While \<open>T_W_C_\<close> still holds the default-constructed Transformation (it has
  never been written), every timer tick emits one transform: the \<open>tf\<close> form of the default
  Transformation, stamped with the time of the tick and tagged with the configured
  \<open>frame_id_\<close> and \<open>child_frame_id_\<close>. A run of ticks emits one such transform per
  tick, in order.
\<close>

theorem broadcast_before_first_write:
  assumes "T_W_C_m st = Transformation_default L"
  shows "tf_broadcaster_m (ticks L nows st) =
           tf_broadcaster_m st @
             map (\<lambda>now. \<lparr>tf_transform = transformKindrToTF L (Transformation_default L),
                          tf_stamp = now,
                          tf_frame_id = frame_id_m st,
                          tf_child_frame_id = child_frame_id_m st\<rparr>) nows"
  using assms by (simp add: ticks_broadcast)

theorem broadcast_before_first_write_witness:
  "OrbSlam2Interface_init L_ex D_ex P_ex = Inr st_ex \<and>
   T_W_C_m st_ex = Transformation_default L_ex \<and>
   tf_broadcaster_m (ticks L_ex [10, 10.1] st_ex) =
     [\<lparr>tf_transform = \<lparr>getRotation = [[1, 0, 0], [0, 1, 0], [0, 0, 1]], getPosition = [0, 0, 0]\<rparr>,
       tf_stamp = 10, tf_frame_id = ''map'', tf_child_frame_id = ''cam0''\<rparr>,
      \<lparr>tf_transform = \<lparr>getRotation = [[1, 0, 0], [0, 1, 0], [0, 0, 1]], getPosition = [0, 0, 0]\<rparr>,
       tf_stamp = 10.1, tf_frame_id = ''map'', tf_child_frame_id = ''cam0''\<rparr>]"
proof -
  have h: "T_W_C_m st_ex = Transformation_default L_ex"
    by (simp add: st_ex_def L_ex_def)
  from broadcast_before_first_write [OF h, of "[10, 10.1]"] h init_ex show ?thesis
    by (simp add: st_ex_def L_ex_def)
qed

text \<open>
  Claim C10. \<open>publishCurrentPose\<close> publishes one message on \<open>T_pub_\<close>: its header is
  the caller's header as it is (stamp and frame id included), its child frame id is the
  configured \<open>child_frame_id_\<close>, its transform is the message form of \<open>T\<close>. The
  messages published before stay, no other member of the interface changes, and the
  configured \<open>frame_id_\<close> has no influence on the message.
\<close>

theorem publishCurrentPose_frame:
  "header (last (T_pub_m (publishCurrentPose L T hdr st))) = hdr \<and>
   stamp (header (last (T_pub_m (publishCurrentPose L T hdr st)))) = stamp hdr \<and>
   frame_id (header (last (T_pub_m (publishCurrentPose L T hdr st)))) = frame_id hdr \<and>
   child_frame_id (last (T_pub_m (publishCurrentPose L T hdr st))) = child_frame_id_m st \<and>
   transform (last (T_pub_m (publishCurrentPose L T hdr st))) = transformKindrToMsg L T \<and>
   butlast (T_pub_m (publishCurrentPose L T hdr st)) = T_pub_m st \<and>
   publishCurrentPose L T hdr st = st\<lparr>T_pub_m := T_pub_m (publishCurrentPose L T hdr st)\<rparr> \<and>
   publishCurrentPose L T hdr (st\<lparr>frame_id_m := f\<rparr>)
     = (publishCurrentPose L T hdr st)\<lparr>frame_id_m := f\<rparr>"
  by (simp add: publishCurrentPose_def Let_def)

end
